theory Spec2Isabelle
  imports Main "HOL-Library.Multiset"
begin

section \<open>JavaScript values used by the trainer\<close>

text \<open>
  Scores and counters are JavaScript numbers. The model covers the integers (within the
  safe-integer range, where JavaScript arithmetic is exact) and \<open>NaN\<close>, which is what
  \<^verbatim>\<open>undefined + 1\<close> or \<^verbatim>\<open>Number('x')\<close> produce. Every comparison with \<open>NaN\<close> is
  false, and both \<open>0\<close> and \<open>NaN\<close> are falsy.
\<close>

datatype jsnum = Num int | NaN

fun js_ge :: "jsnum \<Rightarrow> int \<Rightarrow> bool" where
  "js_ge (Num a) b = (a \<ge> b)"
| "js_ge NaN b = False"

fun js_gt :: "jsnum \<Rightarrow> int \<Rightarrow> bool" where
  "js_gt (Num a) b = (a > b)"
| "js_gt NaN b = False"

fun js_lt :: "jsnum \<Rightarrow> int \<Rightarrow> bool" where
  "js_lt (Num a) b = (a < b)"
| "js_lt NaN b = False"

fun js_add :: "jsnum \<Rightarrow> int \<Rightarrow> jsnum" where
  "js_add (Num a) b = Num (a + b)"
| "js_add NaN b = NaN"

fun truthy :: "jsnum \<Rightarrow> bool" where
  "truthy (Num a) = (a \<noteq> 0)"
| "truthy NaN = False"


text \<open>
  The remainder operator \<^verbatim>\<open>%\<close> on integers with a non-zero divisor: the result has the
  sign of the dividend.
\<close>

definition js_rem :: "int \<Rightarrow> int \<Rightarrow> int" where
  "js_rem a b = sgn a * (\<bar>a\<bar> mod \<bar>b\<bar>)"

text \<open>
  A JavaScript object used as a dictionary is an association list in property order.
  Reading a missing key gives \<^verbatim>\<open>undefined\<close> (\<open>None\<close>); assigning to a key overwrites
  the property in place or appends a new one.
\<close>

type_synonym 'v js_object = "(string \<times> 'v) list"

fun obj_set :: "string \<Rightarrow> 'v \<Rightarrow> 'v js_object \<Rightarrow> 'v js_object" where
  "obj_set k v [] = [(k, v)]"
| "obj_set k v (p # ps) = (if fst p = k then (k, v) # ps else p # obj_set k v ps)"

definition obj_keys :: "'v js_object \<Rightarrow> string list" where
  "obj_keys obj = map fst obj"


section \<open>Progress percentage (title state and API service)\<close>




section \<open>Hint selection\<close>

datatype hint_action = PlayMorse | PlayLetterSoundAlike

text \<open>
  \<^verbatim>\<open>playHints(letter, attempts = 0)\<close>: the audio calls it makes, in order. The letter is
  only passed on to the players, so the selection depends on \<open>attempts\<close> alone.
\<close>

definition playHints :: "int \<Rightarrow> hint_action list" where
  "playHints attempts =
     (if js_rem attempts 4 = 0 then [PlayMorse, PlayLetterSoundAlike]
      else if js_rem attempts 4 = 1 then []
      else if js_rem attempts 4 = 2 then [PlayMorse]
      else if js_rem attempts 4 = 3 then [PlayLetterSoundAlike]
      else [])"

text \<open>The four tiers in the order the specification lists them: full, none, morse only, mnemonic only.\<close>

definition hint_tiers :: "hint_action list list" where
  "hint_tiers = [[PlayMorse, PlayLetterSoundAlike], [], [PlayMorse], [PlayLetterSoundAlike]]"


section \<open>Speed practice (PracticeState)\<close>

text \<open>
  Strings are lists of 8-bit characters, so \<^verbatim>\<open>toLowerCase\<close> is modelled on the code
  units below 256, where only \<open>A\<close> to \<open>Z\<close> are mapped into the range the regular expression
  \<^verbatim>\<open>/[a-z0-9]/g\<close> keeps.
\<close>

definition toLowerCase_char :: "char \<Rightarrow> char" where
  "toLowerCase_char c =
     (let n = (of_char c :: nat) in if 65 \<le> n \<and> n \<le> 90 then char_of (n + 32) else c)"

definition is_a_z_0_9 :: "char \<Rightarrow> bool" where
  "is_a_z_0_9 c =
     (let n = (of_char c :: nat) in (97 \<le> n \<and> n \<le> 122) \<or> (48 \<le> n \<and> n \<le> 57))"

definition normalizePhrase :: "string \<Rightarrow> string" where
  "normalizePhrase phrase = filter is_a_z_0_9 (map toLowerCase_char phrase)"

text \<open>
  The fields of \<open>PracticeState\<close> that \<open>handleInput\<close> reads or writes. \<open>sounds\<close> records the
  calls of \<^verbatim>\<open>customSoundManager.playSound\<close>; the text labels are presentation and left out.
\<close>

record practice_state =
  sessionPhrases :: "string list"
  currentPhraseIndex :: nat
  currentCharIndex :: nat
  totalErrors :: nat
  sessionComplete :: bool
  have_audio :: bool
  sounds :: "string list"

text \<open>\<^verbatim>\<open>this.sessionPhrases[this.currentPhraseIndex]\<close>, \<^verbatim>\<open>undefined\<close> out of range.\<close>

definition getCurrentPhrase :: "practice_state \<Rightarrow> string option" where
  "getCurrentPhrase s =
     (if currentPhraseIndex s < length (sessionPhrases s)
      then Some (sessionPhrases s ! currentPhraseIndex s) else None)"

definition getCurrentTarget :: "practice_state \<Rightarrow> string" where
  "getCurrentTarget s =
     normalizePhrase (case getCurrentPhrase s of None \<Rightarrow> [] | Some phrase \<Rightarrow> phrase)"

definition finishSession :: "practice_state \<Rightarrow> practice_state" where
  "finishSession s = s\<lparr>sessionComplete := True\<rparr>"

definition advancePhrase :: "practice_state \<Rightarrow> practice_state" where
  "advancePhrase s =
     (let s1 = s\<lparr>currentPhraseIndex := currentPhraseIndex s + 1, currentCharIndex := 0\<rparr>
      in if currentPhraseIndex s1 \<ge> length (sessionPhrases s1) then finishSession s1 else s1)"

definition handleInput :: "string \<Rightarrow> practice_state \<Rightarrow> practice_state" where
  "handleInput letter s =
     (if sessionComplete s then s
      else
        let target = getCurrentTarget s in
        if target = [] then s
        else if currentCharIndex s \<ge> length target then s
        else
          let expected = [target ! currentCharIndex s];
              correct = (letter = expected);
              s1 = (if \<not> correct
                    then (let e = s\<lparr>totalErrors := totalErrors s + 1\<rparr>
                          in if have_audio e then e\<lparr>sounds := sounds e @ [''wrong'']\<rparr> else e)
                    else if have_audio s then s\<lparr>sounds := sounds s @ [''correct'']\<rparr>
                    else s);
              s2 = s1\<lparr>currentCharIndex := currentCharIndex s1 + 1\<rparr>
          in if currentCharIndex s2 \<ge> length target then advancePhrase s2 else s2)"

text \<open>An input is accepted when none of the three early returns of \<open>handleInput\<close> fires.\<close>

definition accepted :: "practice_state \<Rightarrow> bool" where
  "accepted s \<longleftrightarrow>
     \<not> sessionComplete s \<and> getCurrentTarget s \<noteq> [] \<and> currentCharIndex s < length (getCurrentTarget s)"

text \<open>A sequence of committed letters, handled one after the other.\<close>

definition handleInputs :: "string list \<Rightarrow> practice_state \<Rightarrow> practice_state" where
  "handleInputs letters s = foldl (\<lambda>st letter. handleInput letter st) s letters"

section \<open>The game space (GameSpace)\<close>

subsection \<open>Data\<close>

text \<open>
  The two constants of \<^verbatim>\<open>config.app\<close> that the progression engine reads. The configuration
  module lies outside the verified sources, so they are parameters of every function.
\<close>

record app_config =
  LEARNED_THRESHOLD :: int
  CONSECUTIVE_CORRECT :: int

text \<open>
  \<^verbatim>\<open>this.parent.course\<close>. Either field may be missing, as in the fallback course objects
  the application builds, which carry no \<^verbatim>\<open>words\<close>.
\<close>

record course =
  lettersToLearn :: "string list option"
  words :: "string list option"

text \<open>A \<open>Word\<close> of the queue: its letters (one-character strings) and its cursor.\<close>

record word =
  myLetters :: "string list"
  currentLetterIndex :: nat

text \<open>The analytics counters of one letter, kept in local storage under \<^verbatim>\<open>analyticsData\<close>.\<close>

record counts =
  wrong :: int
  correct :: int

text \<open>
  Calls to collaborators, in the order they are made.

  Modelled from the spec: \<^verbatim>\<open>parent.saveProgress()\<close> belongs to the game state, which lies
  outside the verified sources; the specification describes it as the persistence collaborator's
  \<^verbatim>\<open>save(courseKey, MasteryScore)\<close>. A call is recorded as \<open>SaveProgress\<close> with the score
  map at the moment of the call.

  \<open>SaveLetters\<close> is \<^verbatim>\<open>header.saveLetters(score)\<close>, which writes the map to local storage
  under the course's storage key.
  \<open>StartCongratulations\<close> is the transition \<^verbatim>\<open>game.state.start('congratulations', ...)\<close>.
\<close>

datatype effect =
    SaveProgress "jsnum js_object"
  | SaveLetters "jsnum js_object"
  | StartCongratulations "jsnum js_object"

text \<open>
  The fields of \<open>GameSpace\<close> and of its surroundings that the engine reads or writes.
  \<open>analyticsData\<close> is the local-storage item (\<open>None\<close> while it has never been written) and
  \<open>EMPTY_ANALYTICS\<close> the module-level default object, which \<open>incrementAnalyticsCount\<close>
  mutates when it falls back to it. \<open>addLettersTimers\<close> counts the pending
  \<^verbatim>\<open>setTimeout\<close> callbacks of \<open>checkAddLetters\<close>. The parent, its header and the score
  dictionary are taken to exist, and the drawing, tweening and sound calls to return normally.
\<close>

record game_space =
  parent_course :: "course option"
  currentLettersInPlay :: "string list"
  currentWords :: "word list"
  currentWordIndex :: nat
  mistakeCount :: int
  consecutiveCorrect :: int
  inputReady :: bool
  letterScoreDict :: "jsnum js_object"
  have_speech_assistive :: bool
  analyticsData :: "counts js_object option"
  EMPTY_ANALYTICS :: "counts js_object"
  addLettersTimers :: nat
  effects :: "effect list"

text \<open>A statement either returns or throws; both leave a state behind.\<close>

datatype 'a outcome = Returned 'a | Threw 'a

fun outcome_state :: "'a outcome \<Rightarrow> 'a" where
  "outcome_state (Returned x) = x"
| "outcome_state (Threw x) = x"

text \<open>\<^verbatim>\<open>obj[key]\<close>, and the property key JavaScript makes of a possibly undefined letter.\<close>

definition obj_get :: "'v js_object \<Rightarrow> string \<Rightarrow> 'v option" where
  "obj_get obj k = map_of obj k"

definition js_key :: "string option \<Rightarrow> string" where
  "js_key letter = (case letter of None \<Rightarrow> ''undefined'' | Some k \<Rightarrow> k)"

text \<open>\<^verbatim>\<open>array[i]\<close>, \<^verbatim>\<open>undefined\<close> out of range.\<close>

definition at_index :: "'a list \<Rightarrow> nat \<Rightarrow> 'a option" where
  "at_index xs i = (if i < length xs then Some (xs ! i) else None)"

text \<open>\<^verbatim>\<open>_.indexOf(array, value)\<close>: the first index of the value, or \<open>-1\<close>.\<close>

fun indexOf :: "'a list \<Rightarrow> 'a \<Rightarrow> int" where
  "indexOf [] v = -1"
| "indexOf (x # xs) v = (if x = v then 0 else (let i = indexOf xs v in if i = -1 then -1 else i + 1))"

text \<open>A string seen as an array of one-character strings, which is what indexing it yields.\<close>

definition chars_of :: "string \<Rightarrow> string list" where
  "chars_of w = map (\<lambda>c. [c]) w"

text \<open>
  \<^verbatim>\<open>_.intersection(xs, ys)\<close>: the values of \<open>xs\<close> that occur in \<open>ys\<close>, each once, in the
  order of their first occurrence in \<open>xs\<close>.
\<close>

fun uniq_from :: "'a list \<Rightarrow> 'a list \<Rightarrow> 'a list" where
  "uniq_from seen [] = []"
| "uniq_from seen (x # xs) = (if x \<in> set seen then uniq_from seen xs else x # uniq_from (x # seen) xs)"

definition intersection :: "'a list \<Rightarrow> 'a list \<Rightarrow> 'a list" where
  "intersection xs ys = uniq_from [] (filter (\<lambda>x. x \<in> set ys) xs)"

subsection \<open>Choosing a word\<close>

definition defaultWords :: "string list" where
  "defaultWords =
     [''cat'', ''dog'', ''hat'', ''bat'', ''rat'', ''sat'', ''mat'', ''fat'',
      ''run'', ''sun'', ''fun'', ''bun'', ''gun'', ''pun'',
      ''red'', ''bed'', ''fed'', ''led'', ''wed'', ''ted'',
      ''big'', ''dig'', ''fig'', ''pig'', ''wig'', ''zig'',
      ''box'', ''fox'', ''lox'', ''sox'', ''tox'', ''vox'']"

text \<open>The inner loop of \<open>findAWord\<close>: one letter outside the pool clears the flag.\<close>

definition onlyTheseLetters :: "string list \<Rightarrow> string \<Rightarrow> bool" where
  "onlyTheseLetters pool w =
     foldl (\<lambda>flag l. if indexOf pool l = -1 then False else flag) True (chars_of w)"

text \<open>
  The test guarding the preference for the newest letter:
  \<^verbatim>\<open>this.letterScoreDict[newestLetter] && this.letterScoreDict[newestLetter] < LEARNED_THRESHOLD\<close>.
  The first conjunct is a truthiness test, so a score of \<open>0\<close> fails it like a missing one.
\<close>

definition newest_preferred :: "app_config \<Rightarrow> jsnum js_object \<Rightarrow> string \<Rightarrow> bool" where
  "newest_preferred cfg dict newestLetter =
     (case obj_get dict newestLetter of
        None \<Rightarrow> False
      | Some v \<Rightarrow> truthy v \<and> js_lt v (LEARNED_THRESHOLD cfg))"

text \<open>The outer loop over the shuffled corpus, left at the first word that is taken.\<close>

fun scan_words :: "app_config \<Rightarrow> jsnum js_object \<Rightarrow> string list \<Rightarrow> string \<Rightarrow> string list \<Rightarrow> string option" where
  "scan_words cfg dict pool newestLetter [] = None"
| "scan_words cfg dict pool newestLetter (w # ws) =
     (if onlyTheseLetters pool w then
        (if newest_preferred cfg dict newestLetter then
           (if indexOf (chars_of w) newestLetter > -1 then Some w
            else scan_words cfg dict pool newestLetter ws)
         else Some w)
      else scan_words cfg dict pool newestLetter ws)"

text \<open>
  \<open>findAWord\<close>. The corpus is the course's word list, or the default words when the course
  has none. The second argument is the permutation \<^verbatim>\<open>_.shuffle\<close> returns. The newest
  letter is read before the pool is reseeded; an empty or missing choice is replaced by the
  default word.
\<close>

definition course_words :: "game_space \<Rightarrow> string list" where
  "course_words gs =
     (case parent_course gs of
        None \<Rightarrow> defaultWords
      | Some c \<Rightarrow> (case words c of None \<Rightarrow> defaultWords | Some ws \<Rightarrow> ws))"

definition findAWord :: "app_config \<Rightarrow> (string list \<Rightarrow> string list) \<Rightarrow> game_space \<Rightarrow> string \<times> game_space" where
  "findAWord cfg shuffle gs =
     (let words = course_words gs;
          shuffled = shuffle words;
          newestLetter = (if length (currentLettersInPlay gs) > 0
                          then last (currentLettersInPlay gs) else ''a'');
          gs1 = (if length (currentLettersInPlay gs) < 3
                 then gs\<lparr>currentLettersInPlay :=
                        (case parent_course gs of
                           None \<Rightarrow> [''a'', ''b'', ''c'']
                         | Some c \<Rightarrow> (case lettersToLearn c of
                                        None \<Rightarrow> [''a'', ''b'', ''c'']
                                      | Some ls \<Rightarrow> take 3 ls))\<rparr>
                 else gs);
          myWord = scan_words cfg (letterScoreDict gs1) (currentLettersInPlay gs1) newestLetter shuffled
      in (case myWord of
            None \<Rightarrow> (''cat'', gs1)
          | Some w \<Rightarrow> (if w = [] then (''cat'', gs1) else (w, gs1))))"

subsection \<open>Growing the pool\<close>

text \<open>\<^verbatim>\<open>while (newLength > n) newLength--\<close>.\<close>

function decrease_to :: "nat \<Rightarrow> nat \<Rightarrow> nat" where
  "decrease_to newLength n = (if newLength > n then decrease_to (newLength - 1) n else newLength)"
  by pat_completeness auto
termination
  by (relation "measure (\<lambda>(newLength, n). newLength)") auto

declare decrease_to.simps [simp del]

text \<open>\<open>checkAddLetters\<close> only schedules its body, which runs 200 ms later.\<close>

definition checkAddLetters :: "game_space \<Rightarrow> game_space" where
  "checkAddLetters gs = gs\<lparr>addLettersTimers := addLettersTimers gs + 1\<rparr>"

definition is_learned :: "app_config \<Rightarrow> jsnum js_object \<Rightarrow> string \<Rightarrow> bool" where
  "is_learned cfg dict k =
     (case obj_get dict k of None \<Rightarrow> False | Some v \<Rightarrow> js_ge v (LEARNED_THRESHOLD cfg))"

text \<open>
  The body of the timer. Without a course the callback throws before it changes anything,
  and without \<open>lettersToLearn\<close> the intersection is empty.
\<close>

definition checkAddLetters_callback :: "app_config \<Rightarrow> game_space \<Rightarrow> game_space" where
  "checkAddLetters_callback cfg gs =
     (case parent_course gs of
        None \<Rightarrow> gs
      | Some c \<Rightarrow>
         (case lettersToLearn c of
            None \<Rightarrow> gs
          | Some ls \<Rightarrow>
             (let arrayIntersection = intersection (currentLettersInPlay gs) ls;
                  newArray = map (is_learned cfg (letterScoreDict gs)) arrayIntersection;
                  lastLetter = (if newArray = [] then False else last newArray)
              in if lastLetter \<and> consecutiveCorrect gs \<ge> CONSECUTIVE_CORRECT cfg
                 then (let oldLength = length (currentLettersInPlay gs);
                           newLength = decrease_to (oldLength + 1) (length ls)
                       in gs\<lparr>consecutiveCorrect := 0, currentLettersInPlay := take newLength ls\<rparr>)
                 else gs)))"

text \<open>The condition under which the timer changes the pool.\<close>

definition growth_due :: "app_config \<Rightarrow> game_space \<Rightarrow> string list \<Rightarrow> bool" where
  "growth_due cfg gs ls \<longleftrightarrow>
     intersection (currentLettersInPlay gs) ls \<noteq> []
   \<and> is_learned cfg (letterScoreDict gs) (last (intersection (currentLettersInPlay gs) ls))
   \<and> CONSECUTIVE_CORRECT cfg \<le> consecutiveCorrect gs"

subsection \<open>Course completion\<close>

text \<open>
  \<open>checkAllLettersLearned\<close> compares the number of keys of the score dictionary whose score
  has reached the threshold with the length of \<open>lettersToLearn\<close>. \<open>None\<close> is the
  \<^verbatim>\<open>TypeError\<close> of reading \<^verbatim>\<open>lettersToLearn.length\<close> when the course or the list is missing.
\<close>

definition checkAllLettersLearned :: "app_config \<Rightarrow> game_space \<Rightarrow> (bool \<times> game_space) option" where
  "checkAllLettersLearned cfg gs =
     (case parent_course gs of
        None \<Rightarrow> None
      | Some c \<Rightarrow>
         (case lettersToLearn c of
            None \<Rightarrow> None
          | Some ls \<Rightarrow>
             (let totalLetters = length ls;
                  learnedLetters = length (filter (is_learned cfg (letterScoreDict gs))
                                             (obj_keys (letterScoreDict gs)))
              in if learnedLetters = totalLetters
                 then Some (True, gs\<lparr>effects := effects gs @
                                        [SaveProgress (letterScoreDict gs),
                                         StartCongratulations (letterScoreDict gs)]\<rparr>)
                 else Some (False, gs))))"

subsection \<open>Analytics counters\<close>

datatype counter = Wrong | Correct

definition bump :: "counter \<Rightarrow> counts \<Rightarrow> counts" where
  "bump key c = (case key of Wrong \<Rightarrow> c\<lparr>wrong := wrong c + 1\<rparr> | Correct \<Rightarrow> c\<lparr>correct := correct c + 1\<rparr>)"

text \<open>
  \<open>incrementAnalyticsCount(key)(letter)\<close>. When nothing is stored yet the default object is
  stored and then used itself, so the increment also changes \<open>EMPTY_ANALYTICS\<close>. A letter
  without counters makes \<^verbatim>\<open>analyticsData[letter][key]\<close> throw.
\<close>

definition incrementAnalyticsCount :: "counter \<Rightarrow> string option \<Rightarrow> game_space \<Rightarrow> game_space outcome" where
  "incrementAnalyticsCount key letter gs =
     (let fresh = (analyticsData gs = None);
          gs1 = (if fresh then gs\<lparr>analyticsData := Some (EMPTY_ANALYTICS gs)\<rparr> else gs);
          data = (case analyticsData gs of None \<Rightarrow> EMPTY_ANALYTICS gs | Some d \<Rightarrow> d)
      in case obj_get data (js_key letter) of
           None \<Rightarrow> Threw gs1
         | Some c \<Rightarrow>
            (let data' = obj_set (js_key letter) (bump key c) data
             in Returned (gs1\<lparr>analyticsData := Some data',
                               EMPTY_ANALYTICS := (if fresh then data' else EMPTY_ANALYTICS gs1)\<rparr>)))"

definition incrementCorrectCount :: "string option \<Rightarrow> game_space \<Rightarrow> game_space outcome" where
  "incrementCorrectCount = incrementAnalyticsCount Correct"

definition incrementWrongCount :: "string option \<Rightarrow> game_space \<Rightarrow> game_space outcome" where
  "incrementWrongCount = incrementAnalyticsCount Wrong"

subsection \<open>Extending the queue\<close>

text \<open>
  \<open>makeWordObject\<close> picks a word, builds the \<open>Word\<close>, schedules the pool check and pushes
  the word. \<open>addAWord\<close> then reads the word before the new one to place the new one, which
  throws when there is none or when that word has no letter objects.
\<close>

definition makeWordObject :: "app_config \<Rightarrow> (string list \<Rightarrow> string list) \<Rightarrow> game_space \<Rightarrow> game_space" where
  "makeWordObject cfg shuffle gs =
     (let (myWord, gs1) = findAWord cfg shuffle gs;
          word = \<lparr>myLetters = chars_of myWord, currentLetterIndex = 0\<rparr>;
          gs2 = checkAddLetters gs1
      in gs2\<lparr>currentWords := currentWords gs2 @ [word]\<rparr>)"

definition addAWord :: "app_config \<Rightarrow> (string list \<Rightarrow> string list) \<Rightarrow> game_space \<Rightarrow> game_space outcome" where
  "addAWord cfg shuffle gs =
     (let gs1 = makeWordObject cfg shuffle gs in
      if length (currentWords gs1) < 2 then Threw gs1
      else (case at_index (currentWords gs1) (length (currentWords gs1) - 2) of
              None \<Rightarrow> Threw gs1
            | Some prior \<Rightarrow> if myLetters prior = [] then Threw gs1 else Returned gs1))"

subsection \<open>Evaluating a submission\<close>

text \<open>\<^verbatim>\<open>dict[k] += d\<close>; a missing score becomes \<open>NaN\<close>.\<close>

definition add_to_score :: "string \<Rightarrow> int \<Rightarrow> jsnum js_object \<Rightarrow> jsnum js_object" where
  "add_to_score k d dict =
     obj_set k (case obj_get dict k of None \<Rightarrow> NaN | Some v \<Rightarrow> js_add v d) dict"

text \<open>The two clamps: \<^verbatim>\<open>if (dict[k] > T + 2) dict[k] = T + 2\<close> and its mirror image.\<close>

definition clamp_upper :: "app_config \<Rightarrow> string \<Rightarrow> jsnum js_object \<Rightarrow> jsnum js_object" where
  "clamp_upper cfg k dict =
     (case obj_get dict k of
        None \<Rightarrow> dict
      | Some v \<Rightarrow> if js_gt v (LEARNED_THRESHOLD cfg + 2)
                  then obj_set k (Num (LEARNED_THRESHOLD cfg + 2)) dict else dict)"

definition clamp_lower :: "app_config \<Rightarrow> string \<Rightarrow> jsnum js_object \<Rightarrow> jsnum js_object" where
  "clamp_lower cfg k dict =
     (case obj_get dict k of
        None \<Rightarrow> dict
      | Some v \<Rightarrow> if js_lt v (- LEARNED_THRESHOLD cfg - 2)
                  then obj_set k (Num (- LEARNED_THRESHOLD cfg - 2)) dict else dict)"

text \<open>
  \<open>header.updateProgressLights(score, letter)\<close> begins with \<open>saveLetters(score)\<close>, which
  reads \<^verbatim>\<open>this.parent.course.storageKey\<close> and so throws without a course; the rest of it
  adjusts the progress lights.
\<close>

definition updateProgressLights :: "game_space \<Rightarrow> game_space outcome" where
  "updateProgressLights gs =
     (case parent_course gs of
        None \<Rightarrow> Threw gs
      | Some c \<Rightarrow> Returned (gs\<lparr>effects := effects gs @ [SaveLetters (letterScoreDict gs)]\<rparr>))"

text \<open>The \<^verbatim>\<open>finally\<close> block of \<open>checkMatch\<close>.\<close>

definition finally_ready :: "game_space \<Rightarrow> game_space" where
  "finally_ready gs = gs\<lparr>inputReady := True\<rparr>"

text \<open>
  \<open>checkMatch\<close> is an \<^verbatim>\<open>async\<close> function. It runs without interruption up to an
  \<^verbatim>\<open>await\<close>, where it is suspended and other handlers may run. A suspended call is a
  \<open>task\<close>: waiting for the sound of a correct answer (it holds the index of its \<open>word\<close> in
  the queue, which only grows), waiting for the sound of a wrong answer (it holds its
  \<open>letter\<close>), or playing the letter and the hints after it has re-opened the gate. The
  hint chain changes no field, so it is one step, followed by the \<^verbatim>\<open>finally\<close> block.
\<close>

datatype task = AwaitPlayCorrect nat | AwaitPlayWrong "string option" | AwaitHints

text \<open>
  The correct path from after \<^verbatim>\<open>await this.playCorrect()\<close> on, in its two parts. First
  the step to the next word when the word is finished, which extends the queue when fewer
  than two words lie ahead.
\<close>

definition advance_word ::
  "app_config \<Rightarrow> (string list \<Rightarrow> string list) \<Rightarrow> nat \<Rightarrow> word \<Rightarrow> game_space \<Rightarrow> game_space outcome" where
  "advance_word cfg shuffle widx word gs =
     (if currentLetterIndex word \<ge> length (myLetters word)
      then (let g1 = gs\<lparr>currentWordIndex := currentWordIndex gs + 1,
                         currentWords := (currentWords gs)[widx := word\<lparr>currentLetterIndex := 0\<rparr>]\<rparr>
            in if currentWordIndex g1 + 2 > length (currentWords g1)
               then addAWord cfg shuffle g1 else Returned g1)
      else Returned gs)"

text \<open>
  Then the new current letter is read, the gate is re-opened, the progress lights are
  updated and the completion of the course is checked, which ends the call when it holds.
\<close>

definition show_next_letter :: "app_config \<Rightarrow> game_space \<Rightarrow> game_space \<times> task option" where
  "show_next_letter cfg g2 =
     (case at_index (currentWords g2) (currentWordIndex g2) of
        None \<Rightarrow> (finally_ready g2, None)
      | Some w \<Rightarrow>
         (let g3 = g2\<lparr>inputReady := True\<rparr> in
          case updateProgressLights g3 of
            Threw g \<Rightarrow> (finally_ready g, None)
          | Returned g4 \<Rightarrow>
             (case checkAllLettersLearned cfg g4 of
                None \<Rightarrow> (finally_ready g4, None)
              | Some (done, g5) \<Rightarrow>
                  if done then (finally_ready g5, None) else (g5, Some AwaitHints))))"

definition correct_rest ::
  "app_config \<Rightarrow> (string list \<Rightarrow> string list) \<Rightarrow> nat \<Rightarrow> game_space \<Rightarrow> game_space \<times> task option" where
  "correct_rest cfg shuffle widx gs =
     (case at_index (currentWords gs) widx of
        None \<Rightarrow> (finally_ready gs, None)
      | Some word \<Rightarrow>
         (case advance_word cfg shuffle widx word gs of
            Threw g \<Rightarrow> (finally_ready g, None)
          | Returned g2 \<Rightarrow> show_next_letter cfg g2))"

text \<open>The incorrect path from after \<^verbatim>\<open>await this.playWrong()\<close> on.\<close>

definition wrong_rest :: "app_config \<Rightarrow> string option \<Rightarrow> game_space \<Rightarrow> game_space \<times> task option" where
  "wrong_rest cfg letter gs =
     (case updateProgressLights gs of
        Threw g \<Rightarrow> (finally_ready g, None)
      | Returned g1 \<Rightarrow>
         (let g2 = g1\<lparr>letterScoreDict := clamp_lower cfg (js_key letter) (letterScoreDict g1)\<rparr>;
              g3 = g2\<lparr>inputReady := True\<rparr>
          in (g3, Some AwaitHints)))"

text \<open>A call of \<open>checkMatch(typedLetter)\<close>, up to its first \<^verbatim>\<open>await\<close> or its return.\<close>

definition checkMatch_enter ::
  "app_config \<Rightarrow> (string list \<Rightarrow> string list) \<Rightarrow> string \<Rightarrow> game_space \<Rightarrow> game_space \<times> task option" where
  "checkMatch_enter cfg shuffle typedLetter gs =
     (if \<not> inputReady gs then (gs, None)
      else
        (let g0 = gs\<lparr>inputReady := False\<rparr> in
         case at_index (currentWords g0) (currentWordIndex g0) of
           None \<Rightarrow> (finally_ready g0, None)
         | Some word \<Rightarrow>
            (let letter = at_index (myLetters word) (currentLetterIndex word) in
             if Some typedLetter = letter then
               (case incrementCorrectCount letter g0 of
                  Threw g \<Rightarrow> (finally_ready g, None)
                | Returned g1 \<Rightarrow>
                   (let g2 = g1\<lparr>mistakeCount := 0, consecutiveCorrect := consecutiveCorrect g1 + 1\<rparr>;
                        g3 = g2\<lparr>currentWords := (currentWords g2)
                                  [currentWordIndex g2 := word\<lparr>currentLetterIndex := currentLetterIndex word + 1\<rparr>]\<rparr>;
                        g4 = g3\<lparr>letterScoreDict := add_to_score (js_key letter) 1 (letterScoreDict g3)\<rparr>;
                        g5 = g4\<lparr>effects := effects g4 @ [SaveProgress (letterScoreDict g4)]\<rparr>;
                        g6 = g5\<lparr>letterScoreDict := clamp_upper cfg (js_key letter) (letterScoreDict g5)\<rparr>
                    in if have_speech_assistive g6
                       then (g6, Some (AwaitPlayCorrect (currentWordIndex g6)))
                       else correct_rest cfg shuffle (currentWordIndex g6) g6))
             else
               (case incrementWrongCount letter g0 of
                  Threw g \<Rightarrow> (finally_ready g, None)
                | Returned g1 \<Rightarrow>
                   (let g2 = g1\<lparr>mistakeCount := mistakeCount g1 + 1, consecutiveCorrect := 0\<rparr>;
                        g3 = g2\<lparr>letterScoreDict := add_to_score (js_key letter) (- 1) (letterScoreDict g2)\<rparr>
                    in if have_speech_assistive g3
                       then (g3, Some (AwaitPlayWrong letter))
                       else wrong_rest cfg letter g3)))))"

text \<open>A suspended call continues, up to its next \<^verbatim>\<open>await\<close> or its return.\<close>

definition checkMatch_resume ::
  "app_config \<Rightarrow> (string list \<Rightarrow> string list) \<Rightarrow> task \<Rightarrow> game_space \<Rightarrow> game_space \<times> task option" where
  "checkMatch_resume cfg shuffle t gs =
     (case t of
        AwaitPlayCorrect widx \<Rightarrow> correct_rest cfg shuffle widx gs
      | AwaitPlayWrong letter \<Rightarrow> wrong_rest cfg letter gs
      | AwaitHints \<Rightarrow> (finally_ready gs, None))"

text \<open>
  One call run from its start to its return with nothing in between: a call is suspended
  at most twice, in the sound of the answer and in the hint chain.
\<close>

definition complete ::
  "app_config \<Rightarrow> (string list \<Rightarrow> string list) \<Rightarrow> game_space \<times> task option \<Rightarrow> game_space" where
  "complete cfg shuffle r =
     (case r of
        (g1, None) \<Rightarrow> g1
      | (g1, Some t1) \<Rightarrow>
         (case checkMatch_resume cfg shuffle t1 g1 of
            (g2, None) \<Rightarrow> g2
          | (g2, Some t2) \<Rightarrow> fst (checkMatch_resume cfg shuffle t2 g2)))"

definition checkMatch :: "app_config \<Rightarrow> (string list \<Rightarrow> string list) \<Rightarrow> string \<Rightarrow> game_space \<Rightarrow> game_space" where
  "checkMatch cfg shuffle typedLetter gs = complete cfg shuffle (checkMatch_enter cfg shuffle typedLetter gs)"

text \<open>The state a call that has re-opened the gate leaves behind when its hint chain is over.\<close>

definition settled :: "game_space \<times> task option \<Rightarrow> game_space" where
  "settled r = (if snd r = None then fst r else finally_ready (fst r))"

subsection \<open>Sequences of turns\<close>

text \<open>
  A session in which every evaluation completes before the next event: submissions, each
  with the permutation its shuffle would produce, and firings of the pool-check timer.
\<close>

datatype turn = Evaluate string "string list \<Rightarrow> string list" | GrowTimer

definition take_turn :: "app_config \<Rightarrow> game_space \<Rightarrow> turn \<Rightarrow> game_space" where
  "take_turn cfg gs t =
     (case t of
        Evaluate typedLetter shuffle \<Rightarrow> checkMatch cfg shuffle typedLetter gs
      | GrowTimer \<Rightarrow>
          if addLettersTimers gs > 0
          then checkAddLetters_callback cfg (gs\<lparr>addLettersTimers := addLettersTimers gs - 1\<rparr>)
          else gs)"


text \<open>
  The event loop: submissions arrive while earlier calls are suspended, and a suspended
  call continues when the sound it waits for has ended. \<open>pending\<close> holds the suspended
  calls, oldest first.
\<close>

record session =
  space :: game_space
  pending :: "task list"

datatype event = Submit string | Continue nat | FireGrowTimer

definition step :: "app_config \<Rightarrow> (string list \<Rightarrow> string list) \<Rightarrow> session \<Rightarrow> event \<Rightarrow> session" where
  "step cfg shuffle ss ev =
     (case ev of
        Submit typedLetter \<Rightarrow>
          (let (g, t) = checkMatch_enter cfg shuffle typedLetter (space ss)
           in \<lparr>space = g, pending = pending ss @ (case t of None \<Rightarrow> [] | Some x \<Rightarrow> [x])\<rparr>)
      | Continue i \<Rightarrow>
          (case at_index (pending ss) i of
             None \<Rightarrow> ss
           | Some t \<Rightarrow>
              (let (g, t') = checkMatch_resume cfg shuffle t (space ss)
               in \<lparr>space = g,
                   pending = (case t' of
                                None \<Rightarrow> take i (pending ss) @ drop (i + 1) (pending ss)
                              | Some x \<Rightarrow> (pending ss)[i := x])\<rparr>))
      | FireGrowTimer \<Rightarrow> ss\<lparr>space := take_turn cfg (space ss) GrowTimer\<rparr>)"







text \<open>The letter has analytics counters, so that counting it does not throw.\<close>

definition has_counters :: "game_space \<Rightarrow> string \<Rightarrow> bool" where
  "has_counters gs e =
     (obj_get (case analyticsData gs of None \<Rightarrow> EMPTY_ANALYTICS gs | Some d \<Rightarrow> d) e \<noteq> None)"

text \<open>The value \<open>checkAllLettersLearned\<close> returns, \<open>None\<close> when it throws.\<close>

definition all_learned_result :: "app_config \<Rightarrow> game_space \<Rightarrow> bool option" where
  "all_learned_result cfg gs = map_option fst (checkAllLettersLearned cfg gs)"

section \<open>Concrete states\<close>

text \<open>Two practice sessions: at the start of the phrase \<open>ab\<close>, and before its last letter.\<close>

definition practice_start :: practice_state where
  "practice_start =
     \<lparr>sessionPhrases = [''ab'', ''count to ten''], currentPhraseIndex = 0, currentCharIndex = 0,
      totalErrors = 0, sessionComplete = False, have_audio = True, sounds = []\<rparr>"

definition practice_last :: practice_state where
  "practice_last = practice_start\<lparr>currentCharIndex := 1\<rparr>"

text \<open>The thresholds of the specification's examples.\<close>

definition config_2_3 :: app_config where
  "config_2_3 = \<lparr>LEARNED_THRESHOLD = 2, CONSECUTIVE_CORRECT = 3\<rparr>"

definition zero_counts :: "counts js_object" where
  "zero_counts = map (\<lambda>k. (k, \<lparr>wrong = 0, correct = 0\<rparr>)) [''a'', ''b'', ''c'', ''d'']"

text \<open>
  The selector scenario of the specification: pool \<open>a, b, c\<close>, corpus \<open>ab, cab\<close>, every
  score \<open>0\<close>.
\<close>

definition space_abc :: game_space where
  "space_abc =
     \<lparr>parent_course = Some \<lparr>lettersToLearn = Some [''a'', ''b'', ''c'', ''d''], words = Some [''ab'', ''cab'']\<rparr>,
      currentLettersInPlay = [''a'', ''b'', ''c''], currentWords = [], currentWordIndex = 0,
      mistakeCount = 0, consecutiveCorrect = 0, inputReady = True,
      letterScoreDict = [(''a'', Num 0), (''b'', Num 0), (''c'', Num 0), (''d'', Num 0)],
      have_speech_assistive = True, analyticsData = None, EMPTY_ANALYTICS = zero_counts,
      addLettersTimers = 0, effects = []\<rparr>"

text \<open>The same with the newest letter at score \<open>1\<close>, and with a pool no corpus word fits.\<close>

definition space_c_started :: game_space where
  "space_c_started = space_abc
     \<lparr>letterScoreDict := [(''a'', Num 0), (''b'', Num 0), (''c'', Num 1), (''d'', Num 0)]\<rparr>"

definition space_eta :: game_space where
  "space_eta = space_abc\<lparr>currentLettersInPlay := [''e'', ''t'', ''a'']\<rparr>"

text \<open>A queue of three words with the cursor on the first letter of \<open>ab\<close>.\<close>

definition space_turn :: game_space where
  "space_turn = space_abc\<lparr>currentWords :=
      [\<lparr>myLetters = [''a'', ''b''], currentLetterIndex = 0\<rparr>,
       \<lparr>myLetters = [''c'', ''a'', ''b''], currentLetterIndex = 0\<rparr>,
       \<lparr>myLetters = [''a'', ''b''], currentLetterIndex = 0\<rparr>]\<rparr>"

text \<open>
  A pool as \<open>loadLetters\<close> builds it when only \<open>m\<close> had been learned: the learned key first,
  then the first three letters of the course. The last letter \<open>a\<close> is learned and the streak
  is three.
\<close>

definition space_meta :: game_space where
  "space_meta = space_abc
     \<lparr>parent_course := Some \<lparr>lettersToLearn = Some [''e'', ''t'', ''a'', ''i'', ''n'', ''m''], words = Some [''tea'']\<rparr>,
      currentLettersInPlay := [''m'', ''e'', ''t'', ''a''],
      consecutiveCorrect := 3,
      letterScoreDict := [(''e'', Num 0), (''t'', Num 1), (''a'', Num 2), (''i'', Num 0), (''n'', Num 0), (''m'', Num 2)]\<rparr>"

text \<open>The pool is a prefix of the course, its last letter is learned and the streak is three.\<close>

definition space_grow :: game_space where
  "space_grow = space_abc\<lparr>consecutiveCorrect := 3,
      letterScoreDict := [(''a'', Num 0), (''b'', Num 0), (''c'', Num 2), (''d'', Num 0)]\<rparr>"

text \<open>Score maps with a key outside the course, and with every course letter learned.\<close>

definition space_extra_key :: game_space where
  "space_extra_key = space_abc
     \<lparr>letterScoreDict := [(''a'', Num 2), (''b'', Num 2), (''c'', Num 2), (''d'', Num 0), (''x'', Num 2)]\<rparr>"

definition space_all_learned :: game_space where
  "space_all_learned = space_abc
     \<lparr>letterScoreDict := [(''a'', Num 2), (''b'', Num 3), (''c'', Num 2), (''d'', Num 4)]\<rparr>"




section \<open>Properties\<close>


lemma js_rem_nonneg: "0 \<le> a \<Longrightarrow> js_rem a 4 = a mod 4"
  by (cases "a = 0") (simp_all add: js_rem_def)

text \<open>
  C7. For a non-negative mistake count \<open>m\<close> the hint selection of \<open>playHints\<close> is the entry
  \<open>m mod 4\<close> of the cycle full, none, morse only, mnemonic only; so it depends on \<open>m mod 4\<close>
  alone, and \<open>0\<close> gives the full hint while \<open>1\<close> and \<open>5\<close> give none.
\<close>

theorem playHints_cycle:
  assumes "0 \<le> m"
  shows "playHints m = hint_tiers ! nat (m mod 4)
       \<and> playHints m = playHints (m mod 4)
       \<and> playHints 0 = [PlayMorse, PlayLetterSoundAlike]
       \<and> playHints 1 = []
       \<and> playHints 5 = []"
proof -
  have r: "js_rem m 4 = m mod 4" using assms by (rule js_rem_nonneg)
  have rr: "js_rem (m mod 4) 4 = m mod 4" by (simp add: js_rem_nonneg)
  have cases: "m mod 4 = 0 \<or> m mod 4 = 1 \<or> m mod 4 = 2 \<or> m mod 4 = 3" by presburger
  have a: "playHints m = hint_tiers ! nat (m mod 4)"
    using cases by (auto simp: playHints_def r hint_tiers_def)
  have b: "playHints m = playHints (m mod 4)"
    by (simp add: playHints_def r rr)
  have c: "playHints 0 = [PlayMorse, PlayLetterSoundAlike]"
    by (simp add: playHints_def js_rem_def)
  have d: "playHints 1 = []"
    by (simp add: playHints_def js_rem_def)
  have e: "playHints 5 = []"
    by (simp add: playHints_def js_rem_def)
  from a b c d e show ?thesis by blast
qed

theorem playHints_cycle_witness:
  "(0::int) \<le> 6 \<and> playHints 6 = [PlayMorse] \<and> playHints 6 = playHints 2"
proof -
  have h: "(0::int) \<le> 6" by simp
  show ?thesis using playHints_cycle [OF h] by (simp add: hint_tiers_def playHints_def js_rem_def)
qed


lemma target_cong:
  "sessionPhrases s' = sessionPhrases s \<Longrightarrow> currentPhraseIndex s' = currentPhraseIndex s
   \<Longrightarrow> getCurrentTarget s' = getCurrentTarget s"
  by (simp add: getCurrentTarget_def getCurrentPhrase_def)

lemma handleInput_inner:
  assumes "accepted s" "currentCharIndex s + 1 < length (getCurrentTarget s)"
  shows "currentCharIndex (handleInput l s) = currentCharIndex s + 1"
    and "currentPhraseIndex (handleInput l s) = currentPhraseIndex s"
    and "sessionPhrases (handleInput l s) = sessionPhrases s"
    and "sessionComplete (handleInput l s) = sessionComplete s"
  using assms by (auto simp: accepted_def handleInput_def Let_def)

lemma handleInput_last:
  assumes "accepted s" "\<not> currentCharIndex s + 1 < length (getCurrentTarget s)"
  shows "currentCharIndex (handleInput l s) = 0"
    and "currentPhraseIndex (handleInput l s) = currentPhraseIndex s + 1"
  using assms by (auto simp: accepted_def handleInput_def Let_def advancePhrase_def finishSession_def)

lemma handleInput_errors:
  assumes "accepted s"
  shows "totalErrors (handleInput l s) =
           totalErrors s + (if l = [getCurrentTarget s ! currentCharIndex s] then 0 else 1)"
  using assms by (auto simp: accepted_def handleInput_def Let_def advancePhrase_def finishSession_def)

lemma handleInputs_inner:
  "accepted s \<Longrightarrow> currentCharIndex s + length ls < length (getCurrentTarget s) \<Longrightarrow>
     currentCharIndex (handleInputs ls s) = currentCharIndex s + length ls
   \<and> currentPhraseIndex (handleInputs ls s) = currentPhraseIndex s
   \<and> sessionPhrases (handleInputs ls s) = sessionPhrases s
   \<and> accepted (handleInputs ls s)"
proof (induction ls arbitrary: s)
  case Nil
  then show ?case by (simp add: handleInputs_def)
next
  case (Cons l ls)
  let ?s1 = "handleInput l s"
  have lt: "currentCharIndex s + 1 < length (getCurrentTarget s)" using Cons.prems by simp
  note st = handleInput_inner [OF Cons.prems(1) lt, of l]
  have tg: "getCurrentTarget ?s1 = getCurrentTarget s" by (rule target_cong) (simp_all add: st)
  have acc: "accepted ?s1"
    using Cons.prems st tg by (simp add: accepted_def)
  have bound: "currentCharIndex ?s1 + length ls < length (getCurrentTarget ?s1)"
    using Cons.prems st tg by simp
  have unf: "handleInputs (l # ls) s = handleInputs ls ?s1" by (simp add: handleInputs_def)
  from Cons.IH [OF acc bound] st show ?case unfolding unf by simp
qed

lemma handleInputs_snoc: "handleInputs (ls @ [l]) s = handleInput l (handleInputs ls s)"
  by (simp add: handleInputs_def)

text \<open>
  C10 (as amended). An accepted input moves the cursor on by one position whether it matches
  or not: \<open>currentCharIndex\<close> grows by one while the phrase is unfinished, and the input that
  reaches the end of the target completes the phrase (\<open>currentPhraseIndex\<close> grows by one and
  \<open>currentCharIndex\<close> is reset to \<open>0\<close>). A wrong input adds exactly one to \<open>totalErrors\<close>, a
  right one adds nothing. Hence a phrase whose normalised target has length \<open>n\<close> is completed
  by exactly \<open>n\<close> accepted inputs and by no fewer.
\<close>

theorem handleInput_advances:
  assumes "accepted s"
  shows "(if currentCharIndex s + 1 < length (getCurrentTarget s)
          then currentCharIndex (handleInput l s) = currentCharIndex s + 1
             \<and> currentPhraseIndex (handleInput l s) = currentPhraseIndex s
          else currentCharIndex (handleInput l s) = 0
             \<and> currentPhraseIndex (handleInput l s) = currentPhraseIndex s + 1)
       \<and> totalErrors (handleInput l s) =
           totalErrors s + (if l = [getCurrentTarget s ! currentCharIndex s] then 0 else 1)
       \<and> (currentCharIndex s = 0 \<and> length ls = length (getCurrentTarget s) \<longrightarrow>
            (\<forall>k < length ls. currentPhraseIndex (handleInputs (take k ls) s) = currentPhraseIndex s
                           \<and> currentCharIndex (handleInputs (take k ls) s) = k
                           \<and> \<not> sessionComplete (handleInputs (take k ls) s))
          \<and> currentPhraseIndex (handleInputs ls s) = currentPhraseIndex s + 1
          \<and> currentCharIndex (handleInputs ls s) = 0)"
proof -
  have one: "if currentCharIndex s + 1 < length (getCurrentTarget s)
          then currentCharIndex (handleInput l s) = currentCharIndex s + 1
             \<and> currentPhraseIndex (handleInput l s) = currentPhraseIndex s
          else currentCharIndex (handleInput l s) = 0
             \<and> currentPhraseIndex (handleInput l s) = currentPhraseIndex s + 1"
    using handleInput_inner(1,2) [OF assms, of l] handleInput_last [OF assms, of l] by simp
  have err: "totalErrors (handleInput l s) =
           totalErrors s + (if l = [getCurrentTarget s ! currentCharIndex s] then 0 else 1)"
    by (rule handleInput_errors [OF assms])
  have many: "(\<forall>k < length ls. currentPhraseIndex (handleInputs (take k ls) s) = currentPhraseIndex s
                           \<and> currentCharIndex (handleInputs (take k ls) s) = k
                           \<and> \<not> sessionComplete (handleInputs (take k ls) s))
          \<and> currentPhraseIndex (handleInputs ls s) = currentPhraseIndex s + 1
          \<and> currentCharIndex (handleInputs ls s) = 0"
    if z: "currentCharIndex s = 0" and len: "length ls = length (getCurrentTarget s)"
  proof -
    have pre: "currentPhraseIndex (handleInputs (take k ls) s) = currentPhraseIndex s
             \<and> currentCharIndex (handleInputs (take k ls) s) = k
             \<and> sessionPhrases (handleInputs (take k ls) s) = sessionPhrases s
             \<and> accepted (handleInputs (take k ls) s)" if "k < length ls" for k
      using handleInputs_inner [OF assms, of "take k ls"] that z len by simp
    have ne: "ls \<noteq> []" using assms len by (auto simp: accepted_def)
    then obtain bs b where ls: "ls = bs @ [b]" by (metis rev_exhaust)
    let ?t = "handleInputs bs s"
    have bs: "take (length bs) ls = bs" using ls by simp
    have p: "currentPhraseIndex ?t = currentPhraseIndex s \<and> currentCharIndex ?t = length bs
             \<and> sessionPhrases ?t = sessionPhrases s \<and> accepted ?t"
      using pre [of "length bs"] ls bs by simp
    have tg: "getCurrentTarget ?t = getCurrentTarget s" by (rule target_cong) (simp_all add: p)
    have nl: "\<not> currentCharIndex ?t + 1 < length (getCurrentTarget ?t)"
      using p tg len ls by simp
    have fin: "currentCharIndex (handleInput b ?t) = 0
             \<and> currentPhraseIndex (handleInput b ?t) = currentPhraseIndex s + 1"
      using handleInput_last [OF _ nl, of b] p by simp
    have A: "\<forall>k < length ls. currentPhraseIndex (handleInputs (take k ls) s) = currentPhraseIndex s
                           \<and> currentCharIndex (handleInputs (take k ls) s) = k
                           \<and> \<not> sessionComplete (handleInputs (take k ls) s)"
      using pre by (simp add: accepted_def)
    have B: "handleInputs ls s = handleInput b ?t" unfolding ls by (rule handleInputs_snoc)
    show ?thesis using A fin unfolding B by simp
  qed
  from one err many show ?thesis by blast
qed


lemmas practice_eval =
  handleInput_def handleInputs_def getCurrentTarget_def getCurrentPhrase_def normalizePhrase_def
  is_a_z_0_9_def toLowerCase_char_def advancePhrase_def finishSession_def accepted_def Let_def
  practice_start_def practice_last_def

theorem handleInput_advances_witness:
  "accepted practice_start
 \<and> currentCharIndex (handleInput ''x'' practice_start) = 1
 \<and> currentPhraseIndex (handleInput ''x'' practice_start) = 0
 \<and> totalErrors (handleInput ''x'' practice_start) = 1
 \<and> currentPhraseIndex (handleInputs [''x'', ''b''] practice_start) = 1
 \<and> currentCharIndex (handleInputs [''x'', ''b''] practice_start) = 0
 \<and> currentCharIndex (handleInputs (take 1 [''x'', ''b'']) practice_start) = 1"
proof -
  have h: "accepted practice_start" by (simp add: practice_eval)
  have t: "getCurrentTarget practice_start = ''ab''" by (simp add: practice_eval)
  have i: "currentCharIndex practice_start = 0" by (simp add: practice_start_def)
  have p: "currentPhraseIndex practice_start = 0" by (simp add: practice_start_def)
  have e: "totalErrors practice_start = 0" by (simp add: practice_start_def)
  show ?thesis
    using h handleInput_advances [OF h, of "''x''" "[''x'', ''b'']"]
    by (auto simp add: t i p e less_Suc_eq)
qed

text \<open>
  C10 as stated fails on the last letter of a phrase: with the cursor at index \<open>1\<close> of the
  target \<open>ab\<close> the accepted input \<open>b\<close> leaves \<open>currentCharIndex\<close> at \<open>0\<close>, not at \<open>2\<close>.
\<close>

theorem handleInput_last_letter_counterexample:
  "accepted practice_last
 \<and> currentCharIndex practice_last = 1
 \<and> currentCharIndex (handleInput ''b'' practice_last) = 0
 \<and> currentCharIndex (handleInput ''b'' practice_last) \<noteq> currentCharIndex practice_last + 1"
  by (simp add: practice_eval)

subsection \<open>The game space\<close>

lemma decrease_to_min: "decrease_to a n = min a n"
  by (induction a n rule: decrease_to.induct) (simp add: decrease_to.simps)

lemma indexOf_minus1: "indexOf xs v = -1 \<longleftrightarrow> v \<notin> set xs"
  and indexOf_ge: "indexOf xs v \<ge> -1"
  by (induction xs) (auto simp: Let_def)

lemma indexOf_found: "indexOf xs v > -1 \<longleftrightarrow> v \<in> set xs"
  using indexOf_minus1 [of xs v] indexOf_ge [of xs v] by linarith

lemma onlyTheseLetters_iff: "onlyTheseLetters pool w \<longleftrightarrow> (\<forall>c \<in> set w. [c] \<in> set pool)"
proof -
  have "foldl (\<lambda>flag l. if indexOf pool l = -1 then False else flag) b ls \<longleftrightarrow> b \<and> (\<forall>l \<in> set ls. l \<in> set pool)" for b ls
    by (induction ls arbitrary: b) (auto simp: indexOf_minus1)
  then show ?thesis by (auto simp: onlyTheseLetters_def chars_of_def)
qed

lemma scan_words_Some:
  "scan_words cfg dict pool n ws = Some w \<Longrightarrow> w \<in> set ws \<and> onlyTheseLetters pool w"
  by (induction ws) (auto split: if_splits)

lemma scan_words_preferred:
  "newest_preferred cfg dict n \<Longrightarrow> scan_words cfg dict pool n ws = Some w \<Longrightarrow> n \<in> set (chars_of w)"
  by (induction ws) (auto split: if_splits simp: indexOf_found)

lemma scan_words_finds:
  "newest_preferred cfg dict n \<Longrightarrow> v \<in> set ws \<Longrightarrow> onlyTheseLetters pool v \<Longrightarrow> n \<in> set (chars_of v)
   \<Longrightarrow> \<exists>w. scan_words cfg dict pool n ws = Some w"
  by (induction ws) (auto simp: indexOf_found)

lemma findAWord_cases:
  "fst (findAWord cfg shuffle gs) = ''cat''
   \<or> (fst (findAWord cfg shuffle gs) \<in> set (shuffle (course_words gs))
       \<and> onlyTheseLetters (currentLettersInPlay (snd (findAWord cfg shuffle gs))) (fst (findAWord cfg shuffle gs)))"
  by (auto simp: findAWord_def Let_def split: option.splits dest: scan_words_Some)

text \<open>
  C2 (as amended). Whatever the corpus, the pool and the permutation, \<open>findAWord\<close> returns
  either the default word \<open>cat\<close> or a word of the shuffled corpus all of whose symbols are
  members of the active pool (the pool it leaves behind, reseeded when it was shorter than
  three).
\<close>

theorem findAWord_pool_or_default:
  "fst (findAWord cfg shuffle gs) = ''cat''
   \<or> (fst (findAWord cfg shuffle gs) \<in> set (shuffle (course_words gs))
       \<and> (\<forall>c \<in> set (fst (findAWord cfg shuffle gs)).
             [c] \<in> set (currentLettersInPlay (snd (findAWord cfg shuffle gs)))))"
  using findAWord_cases [of cfg shuffle gs] by (simp add: onlyTheseLetters_iff)

lemmas findAWord_eval =
  findAWord_def course_words_def onlyTheseLetters_def chars_of_def newest_preferred_def obj_get_def
  config_2_3_def space_abc_def Let_def

theorem findAWord_pool_or_default_witness:
  "fst (findAWord config_2_3 rev space_abc) = ''cab''
 \<and> ''cab'' \<noteq> ''cat''
 \<and> ''cab'' \<in> set (rev (course_words space_abc))
 \<and> set (chars_of ''cab'') \<subseteq> set (currentLettersInPlay (snd (findAWord config_2_3 rev space_abc)))"
  using findAWord_pool_or_default [of config_2_3 rev space_abc]
  by (simp add: findAWord_eval)

text \<open>
  C2 as stated fails in the fallback case: with the pool \<open>e, t, a\<close> no word of the corpus
  \<open>ab, cab\<close> passes the pool filter, and the word returned is \<open>cat\<close>, whose \<open>c\<close> is not in
  the pool.
\<close>

theorem findAWord_default_outside_pool_counterexample:
  "fst (findAWord config_2_3 (\<lambda>ws. ws) space_eta) = ''cat''
 \<and> currentLettersInPlay (snd (findAWord config_2_3 (\<lambda>ws. ws) space_eta)) = [''e'', ''t'', ''a'']
 \<and> ''c'' \<notin> set (currentLettersInPlay (snd (findAWord config_2_3 (\<lambda>ws. ws) space_eta)))"
  by (simp add: findAWord_eval space_eta_def)

text \<open>
  C1, at the specification's own scenario: pool \<open>a, b, c\<close>, corpus \<open>ab, cab\<close> in this order, every
  score \<open>0\<close>, threshold \<open>2\<close>. The newest letter \<open>c\<close> is below the threshold and \<open>cab\<close> is
  eligible and contains it, yet \<open>findAWord\<close> returns \<open>ab\<close>: the score \<open>0\<close> is falsy, so the
  preference is skipped. With the score \<open>1\<close> the same call returns \<open>cab\<close>.
\<close>

theorem findAWord_zero_score_skips_newest:
  "fst (findAWord config_2_3 (\<lambda>ws. ws) space_abc) = ''ab''
 \<and> last (currentLettersInPlay space_abc) = ''c''
 \<and> obj_get (letterScoreDict space_abc) ''c'' = Some (Num 0)
 \<and> onlyTheseLetters (currentLettersInPlay space_abc) ''cab''
 \<and> ''c'' \<in> set (chars_of ''cab'')
 \<and> ''c'' \<notin> set (chars_of ''ab'')
 \<and> fst (findAWord config_2_3 (\<lambda>ws. ws) space_c_started) = ''cab''"
  by (simp add: findAWord_eval space_c_started_def)

text \<open>
  What holds of the preference: when the newest letter's score is a non-zero number below
  the threshold and the shuffled corpus has a pool-eligible word with that letter, the word
  returned contains it.
\<close>

lemma findAWord_prefers_newest:
  assumes "currentLettersInPlay gs \<noteq> []"
    and "newest_preferred cfg (letterScoreDict gs) (last (currentLettersInPlay gs))"
    and "3 \<le> length (currentLettersInPlay gs)"
    and "v \<in> set (shuffle (course_words gs))"
    and "onlyTheseLetters (currentLettersInPlay gs) v"
    and "last (currentLettersInPlay gs) \<in> set (chars_of v)"
  shows "last (currentLettersInPlay gs) \<in> set (chars_of (fst (findAWord cfg shuffle gs)))"
proof -
  let ?n = "last (currentLettersInPlay gs)"
  obtain w where w: "scan_words cfg (letterScoreDict gs) (currentLettersInPlay gs) ?n (shuffle (course_words gs)) = Some w"
    using scan_words_finds [OF assms(2,4,5,6)] by blast
  have c: "?n \<in> set (chars_of w)" using scan_words_preferred [OF assms(2) w] .
  then have "w \<noteq> []" by (auto simp: chars_of_def)
  then have "fst (findAWord cfg shuffle gs) = w"
    using assms(1,3) w by (simp add: findAWord_def Let_def)
  then show ?thesis using c by simp
qed

text \<open>
  C3 (as amended). When the last symbol of the intersection of the pool with the course list
  is learned and the streak has reached \<open>CONSECUTIVE_CORRECT\<close>, the pool-growth check
  replaces the pool by the first \<open>min (size of the pool + 1) (length of the course)\<close> symbols
  of the course list and resets the streak to \<open>0\<close>; otherwise it changes nothing. When the
  pool is a proper prefix of the course list this extends it by exactly the next course
  symbol.
\<close>

theorem checkAddLetters_callback_grows:
  assumes "parent_course gs = Some c" and "lettersToLearn c = Some ls"
  shows "(if growth_due cfg gs ls
          then checkAddLetters_callback cfg gs =
                 gs\<lparr>consecutiveCorrect := 0,
                    currentLettersInPlay := take (min (length (currentLettersInPlay gs) + 1) (length ls)) ls\<rparr>
          else checkAddLetters_callback cfg gs = gs)
       \<and> (growth_due cfg gs ls \<and> currentLettersInPlay gs = take (length (currentLettersInPlay gs)) ls
            \<and> length (currentLettersInPlay gs) < length ls
          \<longrightarrow> currentLettersInPlay (checkAddLetters_callback cfg gs) =
                currentLettersInPlay gs @ [ls ! length (currentLettersInPlay gs)])"
proof -
  have step: "if growth_due cfg gs ls
          then checkAddLetters_callback cfg gs =
                 gs\<lparr>consecutiveCorrect := 0,
                    currentLettersInPlay := take (min (length (currentLettersInPlay gs) + 1) (length ls)) ls\<rparr>
          else checkAddLetters_callback cfg gs = gs"
    using assms
    by (auto simp: checkAddLetters_callback_def growth_due_def Let_def decrease_to_min last_map)
  have ext: "currentLettersInPlay (checkAddLetters_callback cfg gs) =
                currentLettersInPlay gs @ [ls ! length (currentLettersInPlay gs)]"
    if g: "growth_due cfg gs ls" and p: "currentLettersInPlay gs = take (length (currentLettersInPlay gs)) ls"
      and l: "length (currentLettersInPlay gs) < length ls"
  proof -
    let ?n = "length (currentLettersInPlay gs)"
    have "currentLettersInPlay (checkAddLetters_callback cfg gs) = take (Suc ?n) ls"
      using step g l by (simp add: min_def)
    also have "\<dots> = take ?n ls @ [ls ! ?n]" using l by (rule take_Suc_conv_app_nth)
    finally show ?thesis using p by simp
  qed
  from step ext show ?thesis by blast
qed

lemmas grow_eval = checkAddLetters_callback_def growth_due_def intersection_def is_learned_def obj_get_def
  config_2_3_def space_abc_def space_meta_def space_grow_def Let_def decrease_to_min

theorem checkAddLetters_callback_grows_witness:
  "growth_due config_2_3 space_grow [''a'', ''b'', ''c'', ''d'']
 \<and> currentLettersInPlay space_grow = take (length (currentLettersInPlay space_grow)) [''a'', ''b'', ''c'', ''d'']
 \<and> currentLettersInPlay (checkAddLetters_callback config_2_3 space_grow) = [''a'', ''b'', ''c'', ''d'']
 \<and> consecutiveCorrect (checkAddLetters_callback config_2_3 space_grow) = 0
 \<and> checkAddLetters_callback config_2_3 space_abc = space_abc"
proof -
  have c: "parent_course space_grow = Some \<lparr>lettersToLearn = Some [''a'', ''b'', ''c'', ''d''], words = Some [''ab'', ''cab'']\<rparr>"
    by (simp add: space_grow_def space_abc_def)
  have c': "parent_course space_abc = Some \<lparr>lettersToLearn = Some [''a'', ''b'', ''c'', ''d''], words = Some [''ab'', ''cab'']\<rparr>"
    by (simp add: space_abc_def)
  have g: "growth_due config_2_3 space_grow [''a'', ''b'', ''c'', ''d'']" by (simp add: grow_eval)
  have ng: "\<not> growth_due config_2_3 space_abc [''a'', ''b'', ''c'', ''d'']" by (simp add: grow_eval)
  have p: "currentLettersInPlay space_grow = [''a'', ''b'', ''c'']" by (simp add: space_grow_def space_abc_def)
  show ?thesis
    using checkAddLetters_callback_grows [OF c, of "[''a'', ''b'', ''c'', ''d'']" config_2_3]
      checkAddLetters_callback_grows [OF c', of "[''a'', ''b'', ''c'', ''d'']" config_2_3] g ng p
    by simp
qed

text \<open>
  C3 as stated fails for a pool that is not a prefix of the course list: from the pool
  \<open>m, e, t, a\<close> of the course \<open>e, t, a, i, n, m\<close> the check produces \<open>e, t, a, i, n\<close>, which
  has one symbol more but has lost \<open>m\<close>, so the pool was not extended.
\<close>

theorem checkAddLetters_replaces_pool_counterexample:
  "growth_due config_2_3 space_meta [''e'', ''t'', ''a'', ''i'', ''n'', ''m'']
 \<and> currentLettersInPlay space_meta = [''m'', ''e'', ''t'', ''a'']
 \<and> currentLettersInPlay (checkAddLetters_callback config_2_3 space_meta) = [''e'', ''t'', ''a'', ''i'', ''n'']
 \<and> ''m'' \<in> set (currentLettersInPlay space_meta)
 \<and> ''m'' \<notin> set (currentLettersInPlay (checkAddLetters_callback config_2_3 space_meta))"
  by (simp add: grow_eval)

lemma filter_all_length: "length (filter P xs) = length xs \<longleftrightarrow> (\<forall>x \<in> set xs. P x)"
  by (metis filter_True length_filter_less less_irrefl filter_id_conv)

text \<open>
  C4 (as amended). \<open>checkAllLettersLearned\<close> returns true if and only if the number of keys of
  the score map whose score has reached the threshold equals the length of \<open>lettersToLearn\<close>.
  When the keys of the map are exactly the course's symbols, each once, this is the case if
  and only if every course symbol has reached the threshold.
\<close>

theorem checkAllLettersLearned_counts:
  assumes "parent_course gs = Some c" and "lettersToLearn c = Some ls"
  shows "all_learned_result cfg gs =
           Some (length (filter (is_learned cfg (letterScoreDict gs)) (obj_keys (letterScoreDict gs))) = length ls)
       \<and> (distinct (obj_keys (letterScoreDict gs)) \<and> distinct ls \<and> set (obj_keys (letterScoreDict gs)) = set ls
          \<longrightarrow> all_learned_result cfg gs = Some (\<forall>s \<in> set ls. is_learned cfg (letterScoreDict gs) s))"
proof -
  let ?keys = "obj_keys (letterScoreDict gs)"
  let ?P = "is_learned cfg (letterScoreDict gs)"
  have r: "all_learned_result cfg gs = Some (length (filter ?P ?keys) = length ls)"
    using assms by (simp add: all_learned_result_def checkAllLettersLearned_def Let_def)
  have e: "(length (filter ?P ?keys) = length ls) = (\<forall>s \<in> set ls. ?P s)"
    if d: "distinct ?keys" "distinct ls" and s: "set ?keys = set ls"
  proof -
    have "length ?keys = length ls"
      using d s by (metis distinct_card)
    then show ?thesis using filter_all_length [of ?P ?keys] s by simp
  qed
  from r e show ?thesis by simp
qed

lemmas learned_eval = all_learned_result_def checkAllLettersLearned_def is_learned_def obj_get_def obj_keys_def
  config_2_3_def space_abc_def space_extra_key_def space_all_learned_def Let_def

theorem checkAllLettersLearned_counts_witness:
  "distinct (obj_keys (letterScoreDict space_all_learned))
 \<and> set (obj_keys (letterScoreDict space_all_learned)) = set [''a'', ''b'', ''c'', ''d'']
 \<and> all_learned_result config_2_3 space_all_learned = Some True
 \<and> all_learned_result config_2_3 space_abc = Some False"
proof -
  have c: "parent_course space_all_learned = Some \<lparr>lettersToLearn = Some [''a'', ''b'', ''c'', ''d''], words = Some [''ab'', ''cab'']\<rparr>"
    by (simp add: space_all_learned_def space_abc_def)
  have c': "parent_course space_abc = Some \<lparr>lettersToLearn = Some [''a'', ''b'', ''c'', ''d''], words = Some [''ab'', ''cab'']\<rparr>"
    by (simp add: space_abc_def)
  have k: "obj_keys (letterScoreDict space_all_learned) = [''a'', ''b'', ''c'', ''d'']"
    by (simp add: space_all_learned_def obj_keys_def)
  have k': "obj_keys (letterScoreDict space_abc) = [''a'', ''b'', ''c'', ''d'']"
    by (simp add: space_abc_def obj_keys_def)
  have l: "is_learned config_2_3 (letterScoreDict space_all_learned) s" if "s \<in> set [''a'', ''b'', ''c'', ''d'']" for s
    using that by (auto simp: is_learned_def obj_get_def config_2_3_def space_all_learned_def)
  have nl: "\<not> is_learned config_2_3 (letterScoreDict space_abc) ''a''"
    by (simp add: is_learned_def obj_get_def config_2_3_def space_abc_def)
  show ?thesis
    using checkAllLettersLearned_counts [OF c, of "[''a'', ''b'', ''c'', ''d'']" config_2_3]
      checkAllLettersLearned_counts [OF c', of "[''a'', ''b'', ''c'', ''d'']" config_2_3] k k' l nl
    by auto
qed

text \<open>
  C4 as stated fails for a map with a key outside the course: with the course
  \<open>a, b, c, d\<close> and the scores \<open>a: 2, b: 2, c: 2, d: 0, x: 2\<close> four keys are learned, so the
  function returns true although the course symbol \<open>d\<close> is not learned.
\<close>

theorem checkAllLettersLearned_counts_keys_counterexample:
  "all_learned_result config_2_3 space_extra_key = Some True
 \<and> ''d'' \<in> set [''a'', ''b'', ''c'', ''d'']
 \<and> \<not> is_learned config_2_3 (letterScoreDict space_extra_key) ''d''"
  by (simp add: learned_eval)


lemma findAWord_frame:
  "letterScoreDict (snd (findAWord cfg sh gs)) = letterScoreDict gs"
  "effects (snd (findAWord cfg sh gs)) = effects gs"
  "have_speech_assistive (snd (findAWord cfg sh gs)) = have_speech_assistive gs"
  "parent_course (snd (findAWord cfg sh gs)) = parent_course gs"
  by (simp_all add: findAWord_def Let_def split: option.splits)

lemma makeWordObject_frame:
  "letterScoreDict (makeWordObject cfg sh gs) = letterScoreDict gs"
  "effects (makeWordObject cfg sh gs) = effects gs"
  "have_speech_assistive (makeWordObject cfg sh gs) = have_speech_assistive gs"
  "parent_course (makeWordObject cfg sh gs) = parent_course gs"
  by (simp_all add: makeWordObject_def checkAddLetters_def Let_def split_beta findAWord_frame)

lemma addAWord_state: "outcome_state (addAWord cfg sh gs) = makeWordObject cfg sh gs"
  by (simp add: addAWord_def Let_def split: option.splits)

lemma incrementAnalyticsCount_frame:
  "letterScoreDict (outcome_state (incrementAnalyticsCount key letter gs)) = letterScoreDict gs"
  "effects (outcome_state (incrementAnalyticsCount key letter gs)) = effects gs"
  "have_speech_assistive (outcome_state (incrementAnalyticsCount key letter gs)) = have_speech_assistive gs"
  "parent_course (outcome_state (incrementAnalyticsCount key letter gs)) = parent_course gs"
  by (simp_all add: incrementAnalyticsCount_def Let_def split: option.splits)

lemma updateProgressLights_frame:
  "letterScoreDict (outcome_state (updateProgressLights gs)) = letterScoreDict gs"
  "have_speech_assistive (outcome_state (updateProgressLights gs)) = have_speech_assistive gs"
  "\<exists>rest. effects (outcome_state (updateProgressLights gs)) = effects gs @ rest"
  "parent_course (outcome_state (updateProgressLights gs)) = parent_course gs"
  by (simp_all add: updateProgressLights_def split: option.splits)

lemma checkAllLettersLearned_frame:
  assumes "checkAllLettersLearned cfg gs = Some (b, g')"
  shows "letterScoreDict g' = letterScoreDict gs"
    and "have_speech_assistive g' = have_speech_assistive gs"
    and "\<exists>rest. effects g' = effects gs @ rest"
    and "parent_course g' = parent_course gs"
  using assms by (auto simp: checkAllLettersLearned_def Let_def split: option.splits if_splits)


lemma advance_word_frame:
  "letterScoreDict (outcome_state (advance_word cfg sh widx word gs)) = letterScoreDict gs"
  "have_speech_assistive (outcome_state (advance_word cfg sh widx word gs)) = have_speech_assistive gs"
  "effects (outcome_state (advance_word cfg sh widx word gs)) = effects gs"
  "parent_course (outcome_state (advance_word cfg sh widx word gs)) = parent_course gs"
  by (simp_all add: advance_word_def Let_def addAWord_state makeWordObject_frame)

lemma show_next_letter_frame_all:
  "letterScoreDict (fst (show_next_letter cfg gs)) = letterScoreDict gs
 \<and> have_speech_assistive (fst (show_next_letter cfg gs)) = have_speech_assistive gs
 \<and> (\<exists>rest. effects (fst (show_next_letter cfg gs)) = effects gs @ rest)
 \<and> parent_course (fst (show_next_letter cfg gs)) = parent_course gs
 \<and> (snd (show_next_letter cfg gs) = None \<or> snd (show_next_letter cfg gs) = Some AwaitHints)"
proof (cases "at_index (currentWords gs) (currentWordIndex gs)")
  case None
  then show ?thesis by (simp add: show_next_letter_def finally_ready_def)
next
  case (Some w)
  define g3 where "g3 = gs\<lparr>inputReady := True\<rparr>"
  have g3: "letterScoreDict g3 = letterScoreDict gs" "have_speech_assistive g3 = have_speech_assistive gs"
    "effects g3 = effects gs" "parent_course g3 = parent_course gs"
    by (simp_all add: g3_def)
  have unf: "show_next_letter cfg gs =
          (case updateProgressLights g3 of
            Threw g \<Rightarrow> (finally_ready g, None)
          | Returned g4 \<Rightarrow>
             (case checkAllLettersLearned cfg g4 of
                None \<Rightarrow> (finally_ready g4, None)
              | Some (done, g5) \<Rightarrow>
                  if done then (finally_ready g5, None) else (g5, Some AwaitHints)))"
    using Some by (simp add: show_next_letter_def g3_def)
  note up = updateProgressLights_frame [of g3]
  from up(3) obtain r1 where r1: "effects (outcome_state (updateProgressLights g3)) = effects g3 @ r1"
    by blast
  show ?thesis
  proof (cases "updateProgressLights g3")
    case (Threw g)
    then show ?thesis using up(1,2,4) r1 g3 by (simp add: unf finally_ready_def)
  next
    case (Returned g4)
    then have g4: "letterScoreDict g4 = letterScoreDict gs" "have_speech_assistive g4 = have_speech_assistive gs"
      "effects g4 = effects gs @ r1" "parent_course g4 = parent_course gs"
      using up(1,2,4) r1 g3 by simp_all
    show ?thesis
    proof (cases "checkAllLettersLearned cfg g4")
      case None
      then show ?thesis using g4 Returned by (simp add: unf finally_ready_def)
    next
      case (Some r)
      obtain b g5 where r: "r = (b, g5)" by (cases r)
      note fr = checkAllLettersLearned_frame [OF Some [unfolded r]]
      from fr(3) obtain r2 where "effects g5 = effects g4 @ r2" by blast
      then show ?thesis using Some r fr(1,2,4) g4 Returned by (simp add: unf finally_ready_def)
    qed
  qed
qed

lemma correct_rest_frame_all:
  "letterScoreDict (fst (correct_rest cfg sh widx gs)) = letterScoreDict gs
 \<and> have_speech_assistive (fst (correct_rest cfg sh widx gs)) = have_speech_assistive gs
 \<and> (\<exists>rest. effects (fst (correct_rest cfg sh widx gs)) = effects gs @ rest)
 \<and> parent_course (fst (correct_rest cfg sh widx gs)) = parent_course gs
 \<and> (snd (correct_rest cfg sh widx gs) = None \<or> snd (correct_rest cfg sh widx gs) = Some AwaitHints)"
proof (cases "at_index (currentWords gs) widx")
  case None
  then show ?thesis by (simp add: correct_rest_def finally_ready_def)
next
  case (Some word)
  note adv = advance_word_frame [of cfg sh widx word gs]
  show ?thesis
  proof (cases "advance_word cfg sh widx word gs")
    case (Threw g)
    then show ?thesis using adv Some by (simp add: correct_rest_def finally_ready_def)
  next
    case (Returned g2)
    then have "correct_rest cfg sh widx gs = show_next_letter cfg g2"
      using Some by (simp add: correct_rest_def)
    then show ?thesis using show_next_letter_frame_all [of cfg g2] adv Returned by simp
  qed
qed

lemma correct_rest_frame:
  "letterScoreDict (fst (correct_rest cfg sh widx gs)) = letterScoreDict gs"
  "have_speech_assistive (fst (correct_rest cfg sh widx gs)) = have_speech_assistive gs"
  "\<exists>rest. effects (fst (correct_rest cfg sh widx gs)) = effects gs @ rest"
  "snd (correct_rest cfg sh widx gs) = None \<or> snd (correct_rest cfg sh widx gs) = Some AwaitHints"
  "parent_course (fst (correct_rest cfg sh widx gs)) = parent_course gs"
  using correct_rest_frame_all [of cfg sh widx gs] by blast+

lemma wrong_rest_frame:
  "have_speech_assistive (fst (wrong_rest cfg letter gs)) = have_speech_assistive gs"
  "parent_course (fst (wrong_rest cfg letter gs)) = parent_course gs"
  "snd (wrong_rest cfg letter gs) = None \<or> snd (wrong_rest cfg letter gs) = Some AwaitHints"
  by (simp_all add: wrong_rest_def updateProgressLights_def finally_ready_def Let_def split: option.splits)

lemma wrong_rest_with_course:
  assumes "parent_course gs \<noteq> None"
  shows "letterScoreDict (fst (wrong_rest cfg letter gs)) = clamp_lower cfg (js_key letter) (letterScoreDict gs)"
    and "effects (fst (wrong_rest cfg letter gs)) = effects gs @ [SaveLetters (letterScoreDict gs)]"
  using assms by (auto simp: wrong_rest_def updateProgressLights_def Let_def)

lemma settled_fields:
  "letterScoreDict (settled r) = letterScoreDict (fst r)"
  "effects (settled r) = effects (fst r)"
  "have_speech_assistive (settled r) = have_speech_assistive (fst r)"
  "parent_course (settled r) = parent_course (fst r)"
  by (simp_all add: settled_def finally_ready_def)

lemma complete_hint_chain:
  "snd r = None \<or> snd r = Some AwaitHints \<Longrightarrow> complete cfg sh r = settled r"
  by (cases r) (auto simp: complete_def settled_def checkMatch_resume_def)

lemma complete_correct:
  "complete cfg sh (g, Some (AwaitPlayCorrect i)) = settled (correct_rest cfg sh i g)"
proof -
  obtain g2 t where r: "correct_rest cfg sh i g = (g2, t)" by (cases "correct_rest cfg sh i g")
  have "t = None \<or> t = Some AwaitHints" using correct_rest_frame(4) [of cfg sh i g] r by simp
  then show ?thesis
    by (auto simp: complete_def settled_def checkMatch_resume_def r)
qed

lemma complete_wrong:
  "complete cfg sh (g, Some (AwaitPlayWrong letter)) = settled (wrong_rest cfg letter g)"
proof -
  obtain g2 t where r: "wrong_rest cfg letter g = (g2, t)" by (cases "wrong_rest cfg letter g")
  have "t = None \<or> t = Some AwaitHints" using wrong_rest_frame(3) [of cfg letter g] r by simp
  then show ?thesis
    by (auto simp: complete_def settled_def checkMatch_resume_def r)
qed

lemma counted:
  "has_counters gs e \<Longrightarrow> \<exists>g1. incrementAnalyticsCount key (Some e) (gs\<lparr>inputReady := False\<rparr>) = Returned g1"
  by (auto simp: has_counters_def incrementAnalyticsCount_def Let_def js_key_def split: option.splits)

text \<open>The correct path, whatever the speech setting.\<close>

lemma checkMatch_correct_path:
  assumes "inputReady gs"
    and "at_index (currentWords gs) (currentWordIndex gs) = Some word"
    and "at_index (myLetters word) (currentLetterIndex word) = Some e"
    and "incrementCorrectCount (Some e) (gs\<lparr>inputReady := False\<rparr>) = Returned g1"
  shows "letterScoreDict (checkMatch cfg sh e gs) =
           clamp_upper cfg e (add_to_score e 1 (letterScoreDict gs))"
    and "\<exists>rest. effects (checkMatch cfg sh e gs) =
           effects gs @ SaveProgress (add_to_score e 1 (letterScoreDict gs)) # rest"
    and "have_speech_assistive (checkMatch cfg sh e gs) = have_speech_assistive gs"
    and "parent_course (checkMatch cfg sh e gs) = parent_course gs"
proof -
  define g6 where "g6 = g1
     \<lparr>mistakeCount := 0, consecutiveCorrect := consecutiveCorrect g1 + 1,
      currentWords := (currentWords g1)[currentWordIndex g1 := word\<lparr>currentLetterIndex := currentLetterIndex word + 1\<rparr>],
      effects := effects g1 @ [SaveProgress (add_to_score e 1 (letterScoreDict g1))],
      letterScoreDict := clamp_upper cfg e (add_to_score e 1 (letterScoreDict g1))\<rparr>"
  have g1: "letterScoreDict g1 = letterScoreDict gs" "effects g1 = effects gs"
    "have_speech_assistive g1 = have_speech_assistive gs" "parent_course g1 = parent_course gs"
    using incrementAnalyticsCount_frame [of Correct "Some e" "gs\<lparr>inputReady := False\<rparr>"] assms(4)
    by (simp_all add: incrementCorrectCount_def)
  have enter: "checkMatch_enter cfg sh e gs =
      (if have_speech_assistive g6 then (g6, Some (AwaitPlayCorrect (currentWordIndex g6)))
       else correct_rest cfg sh (currentWordIndex g6) g6)"
    using assms by (simp add: checkMatch_enter_def Let_def g6_def js_key_def)
  have cm: "checkMatch cfg sh e gs = settled (correct_rest cfg sh (currentWordIndex g6) g6)"
    unfolding checkMatch_def enter
    using complete_correct [of cfg sh g6 "currentWordIndex g6"]
      complete_hint_chain [OF correct_rest_frame(4), of cfg sh cfg sh "currentWordIndex g6" g6]
    by simp
  have g6: "letterScoreDict g6 = clamp_upper cfg e (add_to_score e 1 (letterScoreDict gs))"
    "effects g6 = effects gs @ [SaveProgress (add_to_score e 1 (letterScoreDict gs))]"
    "have_speech_assistive g6 = have_speech_assistive gs" "parent_course g6 = parent_course gs"
    using g1 by (simp_all add: g6_def)
  show "letterScoreDict (checkMatch cfg sh e gs) =
           clamp_upper cfg e (add_to_score e 1 (letterScoreDict gs))"
    by (simp add: cm settled_fields correct_rest_frame g6)
  show "have_speech_assistive (checkMatch cfg sh e gs) = have_speech_assistive gs"
    by (simp add: cm settled_fields correct_rest_frame g6)
  show "parent_course (checkMatch cfg sh e gs) = parent_course gs"
    by (simp add: cm settled_fields correct_rest_frame g6)
  obtain rest where "effects (fst (correct_rest cfg sh (currentWordIndex g6) g6)) = effects g6 @ rest"
    using correct_rest_frame(3) by blast
  then show "\<exists>rest. effects (checkMatch cfg sh e gs) =
           effects gs @ SaveProgress (add_to_score e 1 (letterScoreDict gs)) # rest"
    by (simp add: cm settled_fields g6)
qed

text \<open>The incorrect path, whatever the speech setting.\<close>

lemma checkMatch_wrong_path:
  assumes "inputReady gs"
    and "at_index (currentWords gs) (currentWordIndex gs) = Some word"
    and "at_index (myLetters word) (currentLetterIndex word) = letter"
    and "Some typed \<noteq> letter"
    and "incrementWrongCount letter (gs\<lparr>inputReady := False\<rparr>) = Returned g1"
  shows "parent_course gs \<noteq> None \<Longrightarrow> letterScoreDict (checkMatch cfg sh typed gs) =
           clamp_lower cfg (js_key letter) (add_to_score (js_key letter) (- 1) (letterScoreDict gs))"
    and "parent_course gs \<noteq> None \<Longrightarrow> effects (checkMatch cfg sh typed gs) =
           effects gs @ [SaveLetters (add_to_score (js_key letter) (- 1) (letterScoreDict gs))]"
    and "have_speech_assistive (checkMatch cfg sh typed gs) = have_speech_assistive gs"
    and "parent_course (checkMatch cfg sh typed gs) = parent_course gs"
proof -
  define g3 where "g3 = g1
     \<lparr>mistakeCount := mistakeCount g1 + 1, consecutiveCorrect := 0,
      letterScoreDict := add_to_score (js_key letter) (- 1) (letterScoreDict g1)\<rparr>"
  have g1: "letterScoreDict g1 = letterScoreDict gs" "effects g1 = effects gs"
    "have_speech_assistive g1 = have_speech_assistive gs" "parent_course g1 = parent_course gs"
    using incrementAnalyticsCount_frame [of Wrong letter "gs\<lparr>inputReady := False\<rparr>"] assms(5)
    by (simp_all add: incrementWrongCount_def)
  have enter: "checkMatch_enter cfg sh typed gs =
      (if have_speech_assistive g3 then (g3, Some (AwaitPlayWrong letter))
       else wrong_rest cfg letter g3)"
    using assms by (simp add: checkMatch_enter_def Let_def g3_def)
  have cm: "checkMatch cfg sh typed gs = settled (wrong_rest cfg letter g3)"
    unfolding checkMatch_def enter
    using complete_wrong [of cfg sh g3 letter]
      complete_hint_chain [OF wrong_rest_frame(3), of cfg sh cfg letter g3]
    by simp
  have g3: "letterScoreDict g3 = add_to_score (js_key letter) (- 1) (letterScoreDict gs)"
    "effects g3 = effects gs" "have_speech_assistive g3 = have_speech_assistive gs"
    "parent_course g3 = parent_course gs"
    using g1 by (simp_all add: g3_def)
  show "have_speech_assistive (checkMatch cfg sh typed gs) = have_speech_assistive gs"
    by (simp add: cm settled_fields wrong_rest_frame g3)
  show "parent_course (checkMatch cfg sh typed gs) = parent_course gs"
    by (simp add: cm settled_fields wrong_rest_frame g3)
  assume c: "parent_course gs \<noteq> None"
  then have c3: "parent_course g3 \<noteq> None" by (simp add: g3)
  show "letterScoreDict (checkMatch cfg sh typed gs) =
           clamp_lower cfg (js_key letter) (add_to_score (js_key letter) (- 1) (letterScoreDict gs))"
    by (simp add: cm settled_fields wrong_rest_with_course [OF c3] g3)
  show "effects (checkMatch cfg sh typed gs) =
           effects gs @ [SaveLetters (add_to_score (js_key letter) (- 1) (letterScoreDict gs))]"
    by (simp add: cm settled_fields wrong_rest_with_course [OF c3] g3)
qed


text \<open>The equations that evaluate a turn on a concrete state.\<close>

lemmas turn_eval =
  checkMatch_def complete_def checkMatch_enter_def checkMatch_resume_def correct_rest_def wrong_rest_def
  advance_word_def show_next_letter_def updateProgressLights_def
  finally_ready_def incrementCorrectCount_def incrementWrongCount_def incrementAnalyticsCount_def
  bump_def add_to_score_def clamp_upper_def clamp_lower_def obj_get_def js_key_def at_index_def
  checkAllLettersLearned_def is_learned_def obj_keys_def
  config_2_3_def space_abc_def space_turn_def zero_counts_def Let_def









text \<open>
  C5 (as amended). In a session with a course, an accepted evaluation of a letter that has
  analytics counters changes that letter's score and hands the changed map to a
  persistence call before it is over. On the correct path \<open>parent.saveProgress\<close> is called
  right after the increment, with the map as it is before the upper clamp. On the
  incorrect path the decremented map, as it is before the lower clamp, is written by the
  header's \<open>saveLetters\<close>, and this is the only call.
\<close>

theorem evaluation_persists_scores:
  assumes "inputReady gs"
    and "at_index (currentWords gs) (currentWordIndex gs) = Some word"
    and "at_index (myLetters word) (currentLetterIndex word) = Some e"
    and "has_counters gs e"
    and "parent_course gs \<noteq> None"
  shows "if typed = e
         then letterScoreDict (checkMatch cfg sh typed gs) =
                clamp_upper cfg e (add_to_score e 1 (letterScoreDict gs))
            \<and> (\<exists>rest. effects (checkMatch cfg sh typed gs) =
                  effects gs @ SaveProgress (add_to_score e 1 (letterScoreDict gs)) # rest)
         else letterScoreDict (checkMatch cfg sh typed gs) =
                clamp_lower cfg e (add_to_score e (- 1) (letterScoreDict gs))
            \<and> effects (checkMatch cfg sh typed gs) =
                  effects gs @ [SaveLetters (add_to_score e (- 1) (letterScoreDict gs))]"
proof (cases "typed = e")
  case True
  obtain g1 where "incrementCorrectCount (Some e) (gs\<lparr>inputReady := False\<rparr>) = Returned g1"
    using counted [OF assms(4), of Correct] by (auto simp: incrementCorrectCount_def)
  from checkMatch_correct_path(1,2) [OF assms(1,2,3) this, of cfg sh] True
  show ?thesis by simp
next
  case False
  obtain g1 where "incrementWrongCount (Some e) (gs\<lparr>inputReady := False\<rparr>) = Returned g1"
    using counted [OF assms(4), of Wrong] by (auto simp: incrementWrongCount_def)
  from checkMatch_wrong_path(1,2) [OF assms(1,2,3) _ this assms(5), of typed cfg sh] False
  show ?thesis by (simp add: js_key_def)
qed

theorem evaluation_persists_scores_witness:
  "inputReady space_turn
 \<and> has_counters space_turn ''a''
 \<and> parent_course space_turn \<noteq> None
 \<and> letterScoreDict (checkMatch config_2_3 (\<lambda>ws. ws) ''a'' space_turn) =
     [(''a'', Num 1), (''b'', Num 0), (''c'', Num 0), (''d'', Num 0)]
 \<and> hd (effects (checkMatch config_2_3 (\<lambda>ws. ws) ''a'' space_turn)) =
     SaveProgress [(''a'', Num 1), (''b'', Num 0), (''c'', Num 0), (''d'', Num 0)]
 \<and> effects (checkMatch config_2_3 (\<lambda>ws. ws) ''b'' space_turn) =
     [SaveLetters [(''a'', Num (- 1)), (''b'', Num 0), (''c'', Num 0), (''d'', Num 0)]]"
proof -
  have r: "inputReady space_turn" by (simp add: space_turn_def space_abc_def)
  have w: "at_index (currentWords space_turn) (currentWordIndex space_turn) =
             Some \<lparr>myLetters = [''a'', ''b''], currentLetterIndex = 0\<rparr>"
    by (simp add: space_turn_def space_abc_def at_index_def)
  have e: "at_index (myLetters \<lparr>myLetters = [''a'', ''b''], currentLetterIndex = 0\<rparr>)
             (currentLetterIndex \<lparr>myLetters = [''a'', ''b''], currentLetterIndex = 0\<rparr>) = Some ''a''"
    by (simp add: at_index_def)
  have c: "has_counters space_turn ''a''"
    by (simp add: has_counters_def space_turn_def space_abc_def zero_counts_def obj_get_def)
  have d: "letterScoreDict space_turn = [(''a'', Num 0), (''b'', Num 0), (''c'', Num 0), (''d'', Num 0)]"
    by (simp add: space_turn_def space_abc_def)
  have f: "effects space_turn = []" by (simp add: space_turn_def space_abc_def)
  have p: "parent_course space_turn \<noteq> None" by (simp add: space_turn_def space_abc_def)
  show ?thesis
    using r c p
      evaluation_persists_scores [OF r w e c p, of "''a''" config_2_3 "\<lambda>ws. ws"]
      evaluation_persists_scores [OF r w e c p, of "''b''" config_2_3 "\<lambda>ws. ws"]
    by (auto simp: d f add_to_score_def clamp_upper_def clamp_lower_def obj_get_def config_2_3_def)
qed

text \<open>
  C5 as stated fails on the incorrect path: the wrong letter \<open>x\<close> for the expected \<open>a\<close>
  lowers the score of \<open>a\<close> from \<open>0\<close> to \<open>-1\<close>, and the only persistence call of the
  evaluation is \<open>saveLetters\<close>; \<open>parent.saveProgress\<close> is not called.
\<close>

theorem wrong_answer_without_saveProgress_counterexample:
  "effects (checkMatch config_2_3 (\<lambda>ws. ws) ''x'' space_turn) =
     [SaveLetters [(''a'', Num (- 1)), (''b'', Num 0), (''c'', Num 0), (''d'', Num 0)]]
 \<and> letterScoreDict (checkMatch config_2_3 (\<lambda>ws. ws) ''x'' space_turn) =
     [(''a'', Num (- 1)), (''b'', Num 0), (''c'', Num 0), (''d'', Num 0)]
 \<and> letterScoreDict space_turn = [(''a'', Num 0), (''b'', Num 0), (''c'', Num 0), (''d'', Num 0)]"
  by (simp add: turn_eval)













end
